theory Spec2Isabelle
  imports Main "HOL-Library.Sublist"
begin

section \<open>The megabrain agent: web search and the answer pipeline\<close>

text \<open>
  A shallow embedding of \<^verbatim>\<open>src/nanda_adapter/agent/megabrain.py\<close>: the function
  \<^verbatim>\<open>search_web\<close> and the closure \<^verbatim>\<open>megabrain_improvement\<close> that
  \<^verbatim>\<open>create_megabrain_agent\<close> returns.

  The program talks to three things it does not own: the process environment, the HTTP
  endpoint of the search service and the language model. Each is an argument of the
  functions below, so every theorem holds for every behaviour of the three. What the program
  does to the outside (printing, posting a request, invoking the model) is recorded as a
  list of events, in order. A Python exception is a value: a computation returns
  \<open>Inl e\<close> when it raises \<open>e\<close> and \<open>Inr x\<close> when it returns \<open>x\<close>.

  Scope of the model. Exceptions are instances of Python's \<^verbatim>\<open>Exception\<close>, which is
  what \<^verbatim>\<open>except Exception\<close> catches; \<^verbatim>\<open>KeyboardInterrupt\<close> and
  \<^verbatim>\<open>SystemExit\<close> are not modelled. Text is a \<open>string\<close>; \<open>py_strip\<close> and
  \<open>py_upper\<close> are Python's \<^verbatim>\<open>str.strip()\<close> and \<^verbatim>\<open>str.upper()\<close> on ASCII
  text (characters above 127 are left unchanged and are never white space here).
\<close>

subsection \<open>Python values\<close>

text \<open>An exception: its class name and \<^verbatim>\<open>str(e)\<close>.\<close>

datatype exn = Exn (exn_class: string) (exn_message: string)

text \<open>
  What \<^verbatim>\<open>response.json()\<close> can return. A \<open>JObj\<close> lists the items of the parsed
  \<^verbatim>\<open>dict\<close> (a key occurs once); \<open>JFloat\<close> carries the number's text.
\<close>

datatype json =
    JNull
  | JBool bool
  | JInt int
  | JFloat string
  | JStr string
  | JArr "json list"
  | JObj "(string \<times> json) list"

type_synonym pydict = "(string \<times> json) list"

fun py_type_name :: "json \<Rightarrow> string" where
  "py_type_name JNull = ''NoneType''"
| "py_type_name (JBool _) = ''bool''"
| "py_type_name (JInt _) = ''int''"
| "py_type_name (JFloat _) = ''float''"
| "py_type_name (JStr _) = ''str''"
| "py_type_name (JArr _) = ''list''"
| "py_type_name (JObj _) = ''dict''"

definition quoted :: "string \<Rightarrow> string" where
  "quoted s = [CHR 0x27] @ s @ [CHR 0x27]"

definition no_attribute :: "json \<Rightarrow> string \<Rightarrow> exn" where
  "no_attribute v a =
     Exn ''AttributeError'' (quoted (py_type_name v) @ '' object has no attribute '' @ quoted a)"

definition not_iterable :: "json \<Rightarrow> exn" where
  "not_iterable v = Exn ''TypeError'' (quoted (py_type_name v) @ '' object is not iterable'')"

text \<open>\<^verbatim>\<open>v.get(k, d)\<close>: only a \<^verbatim>\<open>dict\<close> has the method.\<close>

fun py_get :: "json \<Rightarrow> string \<Rightarrow> json \<Rightarrow> exn + json" where
  "py_get (JObj kvs) k d = Inr (case map_of kvs k of None \<Rightarrow> d | Some v \<Rightarrow> v)"
| "py_get v k d = Inl (no_attribute v ''get'')"

text \<open>
  \<^verbatim>\<open>for item in v\<close>: the items the loop visits. A list yields its elements, a string its
  characters, a dict its keys; nothing else is iterable.
\<close>

fun py_iter :: "json \<Rightarrow> exn + json list" where
  "py_iter (JArr xs) = Inr xs"
| "py_iter (JStr s) = Inr (map (\<lambda>c. JStr [c]) s)"
| "py_iter (JObj kvs) = Inr (map (\<lambda>kv. JStr (fst kv)) kvs)"
| "py_iter v = Inl (not_iterable v)"

text \<open>\<^verbatim>\<open>d[k]\<close> on a dict raises \<^verbatim>\<open>KeyError\<close> when the key is missing.\<close>

definition py_getitem :: "pydict \<Rightarrow> string \<Rightarrow> exn + json" where
  "py_getitem d k =
     (case map_of d k of None \<Rightarrow> Inl (Exn ''KeyError'' (quoted k)) | Some v \<Rightarrow> Inr v)"

text \<open>
  A value inside an f-string is rendered by \<^verbatim>\<open>str\<close>: a string as itself. The rendering
  of the other values is the parameter \<open>other\<close>.
\<close>

definition py_format :: "(json \<Rightarrow> string) \<Rightarrow> json \<Rightarrow> string" where
  "py_format other v = (case v of JStr s \<Rightarrow> s | _ \<Rightarrow> other v)"

fun string_of_nat :: "nat \<Rightarrow> string" where
  "string_of_nat n =
     (if n < 10 then [char_of (48 + n)]
      else string_of_nat (n div 10) @ [char_of (48 + n mod 10)])"

definition is_space :: "char \<Rightarrow> bool" where
  "is_space c =
     (let n = (of_char c :: nat) in (9 \<le> n \<and> n \<le> 13) \<or> (28 \<le> n \<and> n \<le> 32))"

definition upper_char :: "char \<Rightarrow> char" where
  "upper_char c =
     (let n = (of_char c :: nat) in if 97 \<le> n \<and> n \<le> 122 then char_of (n - 32) else c)"

definition py_strip :: "string \<Rightarrow> string" where
  "py_strip s = rev (dropWhile is_space (rev (dropWhile is_space s)))"

definition py_upper :: "string \<Rightarrow> string" where
  "py_upper s = map upper_char s"

text \<open>\<^verbatim>\<open>sep.join(xs)\<close>.\<close>

fun py_join :: "string \<Rightarrow> string list \<Rightarrow> string" where
  "py_join sep [] = []"
| "py_join sep [x] = x"
| "py_join sep (x # y # ys) = x @ sep @ py_join sep (y # ys)"

subsection \<open>The outside world and the effects of a call\<close>

text \<open>
  The request that \<^verbatim>\<open>requests.post\<close> is given; \<open>post_data\<close> is the payload, the
  dict that the program serialises with \<^verbatim>\<open>json.dumps\<close>.
\<close>

record http_request =
  url :: string
  headers :: "(string \<times> string) list"
  post_data :: pydict

text \<open>
  A response, as the program sees it: whether \<^verbatim>\<open>raise_for_status()\<close> raises, and what
  \<^verbatim>\<open>json()\<close> returns or raises.
\<close>

datatype response = Response (raise_for_status: "exn option") (json_of: "exn + json")

record llm_config =
  api_key :: "string option"
  model_name :: string

datatype event =
    Print string
  | Http_post http_request
  | Llm_invoke llm_config string

type_synonym environ = "string \<Rightarrow> string option"
type_synonym http = "http_request \<Rightarrow> exn + response"
type_synonym llm = "llm_config \<Rightarrow> nat \<Rightarrow> string \<Rightarrow> exn + string"

text \<open>
  A computation: what it returns or raises, and the events it caused. The model is asked
  with the configuration of the client, the position of the call within the run (0 for
  the classifier, 1 for the synthesizer) and the prompt, so that it may answer the same
  prompt differently at different calls.
\<close>

type_synonym 'a comp = "(exn + 'a) \<times> event list"

definition ret :: "'a \<Rightarrow> 'a comp" where
  "ret x = (Inr x, [])"

definition pure_step :: "exn + 'a \<Rightarrow> 'a comp" where
  "pure_step r = (r, [])"

definition emit :: "event \<Rightarrow> unit comp" where
  "emit ev = (Inr (), [ev])"

definition and_then :: "'a comp \<Rightarrow> ('a \<Rightarrow> 'b comp) \<Rightarrow> 'b comp" where
  "and_then m f =
     (case m of
        (Inl e, t) \<Rightarrow> (Inl e, t)
      | (Inr x, t) \<Rightarrow> (case f x of (r, t') \<Rightarrow> (r, t @ t')))"

definition try_except :: "'a comp \<Rightarrow> (exn \<Rightarrow> 'a comp) \<Rightarrow> 'a comp" where
  "try_except m handler =
     (case m of
        (Inl e, t) \<Rightarrow> (case handler e of (r, t') \<Rightarrow> (r, t @ t'))
      | (Inr x, t) \<Rightarrow> (Inr x, t))"

definition is_http_post :: "event \<Rightarrow> bool" where
  "is_http_post ev = (case ev of Http_post _ \<Rightarrow> True | _ \<Rightarrow> False)"

definition network_calls :: "event list \<Rightarrow> nat" where
  "network_calls t = length (filter is_http_post t)"

subsection \<open>\<^verbatim>\<open>search_web\<close>\<close>

definition search_warning :: string where
  "search_warning = ''Warning: SERPER_API_KEY not found. Web search will be disabled.''"

definition search_request :: "string \<Rightarrow> string \<Rightarrow> int \<Rightarrow> http_request" where
  "search_request serper_api_key query num_results =
     \<lparr>url = ''https://google.serper.dev/search'',
      headers = [(''X-API-KEY'', serper_api_key), (''Content-Type'', ''application/json'')],
      post_data = [(''q'', JStr query), (''num'', JInt num_results)]\<rparr>"

text \<open>The loop over the organic results; \<open>results\<close> is the list built so far.\<close>

fun collect :: "json list \<Rightarrow> pydict list \<Rightarrow> exn + pydict list" where
  "collect [] results = Inr results"
| "collect (item # items) results =
     (case py_get item ''title'' (JStr []) of
        Inl e \<Rightarrow> Inl e
      | Inr t \<Rightarrow>
          (case py_get item ''snippet'' (JStr []) of
             Inl e \<Rightarrow> Inl e
           | Inr s \<Rightarrow>
               (case py_get item ''link'' (JStr []) of
                  Inl e \<Rightarrow> Inl e
                | Inr l \<Rightarrow>
                    collect items
                      (results @ [[(''title'', t), (''snippet'', s), (''link'', l)]]))))"

text \<open>Reading the parsed response: the \<^verbatim>\<open>"organic"\<close> list, then the loop.\<close>

definition organic_results :: "json \<Rightarrow> exn + pydict list" where
  "organic_results data =
     (case py_get data ''organic'' (JArr []) of
        Inl e \<Rightarrow> Inl e
      | Inr organic \<Rightarrow>
          (case py_iter organic of Inl e \<Rightarrow> Inl e | Inr items \<Rightarrow> collect items []))"

text \<open>
  The body of the \<^verbatim>\<open>try\<close> block: post the request, check the status, parse the
  payload, extract the results.
\<close>

definition search_web_try :: "http \<Rightarrow> http_request \<Rightarrow> (pydict list) comp" where
  "search_web_try post req =
     and_then (post req, [Http_post req]) (\<lambda>response.
     pure_step
       (case raise_for_status response of
          Some e \<Rightarrow> Inl e
        | None \<Rightarrow>
            (case json_of response of Inl e \<Rightarrow> Inl e | Inr data \<Rightarrow> organic_results data)))"

definition search_disabled :: "(pydict list) comp" where
  "search_disabled = and_then (emit (Print search_warning)) (\<lambda>_. ret [])"

definition search_web :: "environ \<Rightarrow> http \<Rightarrow> string \<Rightarrow> int \<Rightarrow> (pydict list) comp" where
  "search_web env post query num_results =
     (case env ''SERPER_API_KEY'' of
        None \<Rightarrow> search_disabled
      | Some serper_api_key \<Rightarrow>
          if serper_api_key = [] then search_disabled
          else
            try_except (search_web_try post (search_request serper_api_key query num_results))
              (\<lambda>e. and_then (emit (Print (''Error in web search: '' @ exn_message e)))
                     (\<lambda>_. ret [])))"

subsection \<open>The prompts\<close>

definition question_check_template_0 :: string where
  "question_check_template_0 =
     ''Analyze if the following message is a question that would benefit from current, factual information from the web. \<newline>'' @
     ''                Respond with only 'YES' or 'NO'.\<newline>'' @
     ''                \<newline>'' @
     ''                Examples that need web search:\<newline>'' @
     ''                - Questions about current events, news, or recent developments\<newline>'' @
     ''                - Questions about specific facts, statistics, or data\<newline>'' @
     ''                - Questions about technology, companies, or products\<newline>'' @
     ''                - Questions about recent research or studies\<newline>'' @
     ''                - Questions about current prices, availability, or status\<newline>'' @
     ''                \<newline>'' @
     ''                Examples that don't need web search:\<newline>'' @
     ''                - General philosophical questions\<newline>'' @
     ''                - Personal advice or opinions\<newline>'' @
     ''                - Creative writing prompts\<newline>'' @
     ''                - Simple greetings or casual conversation\<newline>'' @
     ''                \<newline>'' @
     ''                Message: ''"

definition question_check_template_1 :: string where
  "question_check_template_1 =
     ''\<newline>'' @
     ''                \<newline>'' @
     ''                Response:''"

definition with_results_template_0 :: string where
  "with_results_template_0 =
     ''You are a Megabrain AI assistant with access to current web information. \<newline>'' @
     ''                    Answer the user's question comprehensively using the provided search results and your knowledge.\<newline>'' @
     ''                    \<newline>'' @
     ''                    Guidelines:\<newline>'' @
     ''                    - Provide a thorough, accurate, and helpful answer\<newline>'' @
     ''                    - Use the search results to support your response with current information\<newline>'' @
     ''                    - Cite specific sources when referencing search results\<newline>'' @
     ''                    - If search results don't fully answer the question, use your knowledge to fill gaps\<newline>'' @
     ''                    - Be clear about what information comes from web search vs. your training data\<newline>'' @
     ''                    - Structure your response logically and clearly\<newline>'' @
     ''                    \<newline>'' @
     ''                    User's Question: ''"

definition with_results_template_1 :: string where
  "with_results_template_1 =
     ''\<newline>'' @
     ''                    \<newline>'' @
     ''                    Web Search Results:\<newline>'' @
     ''                    ''"

definition with_results_template_2 :: string where
  "with_results_template_2 =
     ''\<newline>'' @
     ''                    \<newline>'' @
     ''                    Comprehensive Answer:''"

definition no_results_template_0 :: string where
  "no_results_template_0 =
     ''You are a Megabrain AI assistant. Answer the user's question or respond to their message \<newline>'' @
     ''                    in a helpful, intelligent, and comprehensive manner.\<newline>'' @
     ''                    \<newline>'' @
     ''                    Guidelines:\<newline>'' @
     ''                    - Provide thoughtful, accurate, and helpful responses\<newline>'' @
     ''                    - Be conversational but informative\<newline>'' @
     ''                    - If it's a question, give a complete answer\<newline>'' @
     ''                    - If it's a statement, respond appropriately\<newline>'' @
     ''                    - Use your knowledge to provide valuable insights\<newline>'' @
     ''                    \<newline>'' @
     ''                    User's Message: ''"

definition no_results_template_1 :: string where
  "no_results_template_1 =
     ''\<newline>'' @
     ''                    \<newline>'' @
     ''                    Response:''"

definition fallback_text_0 :: string where
  "fallback_text_0 =
     ''I apologize, but I encountered an error while processing your message: '' @ [CHR 0x27]"

definition fallback_text_1 :: string where
  "fallback_text_1 =
     [CHR 0x27] @ ''. Please try rephrasing your question or let me know how I can help you in a different way.''"

definition question_check_prompt :: "string \<Rightarrow> string" where
  "question_check_prompt message =
     question_check_template_0 @ message @ question_check_template_1"

definition with_results_prompt :: "string \<Rightarrow> string \<Rightarrow> string" where
  "with_results_prompt message search_results =
     with_results_template_0 @ message @ with_results_template_1 @ search_results @
     with_results_template_2"

definition no_results_prompt :: "string \<Rightarrow> string" where
  "no_results_prompt message = no_results_template_0 @ message @ no_results_template_1"

definition fallback_answer :: "string \<Rightarrow> string" where
  "fallback_answer message_text = fallback_text_0 @ message_text @ fallback_text_1"

text \<open>One search result inside the prompt; the three keys are read in this order.\<close>

definition render_result :: "(json \<Rightarrow> string) \<Rightarrow> pydict \<Rightarrow> exn + string" where
  "render_result other result =
     (case py_getitem result ''title'' of
        Inl e \<Rightarrow> Inl e
      | Inr t \<Rightarrow>
          (case py_getitem result ''snippet'' of
             Inl e \<Rightarrow> Inl e
           | Inr s \<Rightarrow>
               (case py_getitem result ''link'' of
                  Inl e \<Rightarrow> Inl e
                | Inr l \<Rightarrow>
                    Inr (''Title: '' @ py_format other t @ ''\<newline>Snippet: '' @
                         py_format other s @ ''\<newline>Link: '' @ py_format other l))))"

fun render_all :: "(json \<Rightarrow> string) \<Rightarrow> pydict list \<Rightarrow> exn + string list" where
  "render_all other [] = Inr []"
| "render_all other (result # rest) =
     (case render_result other result of
        Inl e \<Rightarrow> Inl e
      | Inr x \<Rightarrow>
          (case render_all other rest of Inl e \<Rightarrow> Inl e | Inr xs \<Rightarrow> Inr (x # xs)))"

definition search_context :: "(json \<Rightarrow> string) \<Rightarrow> pydict list \<Rightarrow> exn + string" where
  "search_context other search_results =
     (case render_all other search_results of
        Inl e \<Rightarrow> Inl e
      | Inr blocks \<Rightarrow> Inr (py_join ''\<newline>\<newline>'' blocks))"

subsection \<open>\<^verbatim>\<open>create_megabrain_agent\<close> and \<^verbatim>\<open>megabrain_improvement\<close>\<close>

text \<open>
  The client is built once, when the agent is created, from the environment of that
  moment; the closure keeps it.
\<close>

definition create_megabrain_agent :: "environ \<Rightarrow> llm_config" where
  "create_megabrain_agent env =
     \<lparr>api_key = env ''ANTHROPIC_API_KEY'', model_name = ''claude-3-sonnet-20240229''\<rparr>"

definition invoke :: "llm \<Rightarrow> llm_config \<Rightarrow> nat \<Rightarrow> string \<Rightarrow> string comp" where
  "invoke chat cfg i prompt = (chat cfg i prompt, [Llm_invoke cfg prompt])"

text \<open>The two progress lines; each starts with an emoji, written as its UTF-8 bytes.\<close>

definition searching_line :: "string \<Rightarrow> string" where
  "searching_line message_text =
     [CHR 0xF0, CHR 0x9F, CHR 0x94, CHR 0x8D] @ '' Searching the web for: '' @ message_text"

definition found_line :: "nat \<Rightarrow> string" where
  "found_line n =
     [CHR 0xF0, CHR 0x9F, CHR 0x93, CHR 0x8A] @ '' Found '' @ string_of_nat n @
     '' search results''"

text \<open>The conditional fetch: \<open>needs_search\<close> is the trimmed, upper-cased classifier output.\<close>

definition fetch :: "environ \<Rightarrow> http \<Rightarrow> string \<Rightarrow> string \<Rightarrow> (pydict list) comp" where
  "fetch env post needs_search message_text =
     (if needs_search = ''YES'' then
        and_then (emit (Print (searching_line message_text))) (\<lambda>_.
        and_then (search_web env post message_text 5) (\<lambda>search_results.
        and_then (emit (Print (found_line (length search_results)))) (\<lambda>_.
        ret search_results)))
      else ret [])"

text \<open>The main response: one of the two templates, then the model.\<close>

definition respond ::
  "llm \<Rightarrow> llm_config \<Rightarrow> (json \<Rightarrow> string) \<Rightarrow> string \<Rightarrow> pydict list \<Rightarrow> string comp" where
  "respond chat cfg other message_text search_results =
     (if search_results \<noteq> [] then
        and_then (pure_step (search_context other search_results)) (\<lambda>ctx.
        invoke chat cfg 1 (with_results_prompt message_text ctx))
      else invoke chat cfg 1 (no_results_prompt message_text))"

text \<open>The body of the \<^verbatim>\<open>try\<close> block of \<^verbatim>\<open>megabrain_improvement\<close>.\<close>

definition megabrain_try ::
  "llm_config \<Rightarrow> environ \<Rightarrow> http \<Rightarrow> llm \<Rightarrow> (json \<Rightarrow> string) \<Rightarrow> string \<Rightarrow> string comp" where
  "megabrain_try cfg env post chat other message_text =
     and_then (invoke chat cfg 0 (question_check_prompt message_text)) (\<lambda>raw.
     and_then (fetch env post (py_upper (py_strip raw)) message_text) (\<lambda>search_results.
     and_then (respond chat cfg other message_text search_results) (\<lambda>result.
     ret (py_strip result))))"

definition megabrain_improvement ::
  "llm_config \<Rightarrow> environ \<Rightarrow> http \<Rightarrow> llm \<Rightarrow> (json \<Rightarrow> string) \<Rightarrow> string \<Rightarrow> string comp" where
  "megabrain_improvement cfg env post chat other message_text =
     try_except (megabrain_try cfg env post chat other message_text)
       (\<lambda>e. and_then (emit (Print (''Error in megabrain improvement: '' @ exn_message e)))
              (\<lambda>_. ret (fallback_answer message_text)))"

subsection \<open>Notions used to state the properties\<close>

text \<open>The record that the loop of \<open>search_web\<close> builds from an organic entry with items \<open>kvs\<close>.\<close>

definition item_result :: "pydict \<Rightarrow> pydict" where
  "item_result kvs =
     [(''title'', case map_of kvs ''title'' of None \<Rightarrow> JStr [] | Some v \<Rightarrow> v),
      (''snippet'', case map_of kvs ''snippet'' of None \<Rightarrow> JStr [] | Some v \<Rightarrow> v),
      (''link'', case map_of kvs ''link'' of None \<Rightarrow> JStr [] | Some v \<Rightarrow> v)]"

fun is_dict :: "json \<Rightarrow> bool" where
  "is_dict (JObj _) = True"
| "is_dict _ = False"

fun items_of :: "json \<Rightarrow> pydict" where
  "items_of (JObj kvs) = kvs"
| "items_of _ = []"

text \<open>\<^verbatim>\<open>k in d\<close> for a dict \<open>d\<close>.\<close>

definition has_key :: "pydict \<Rightarrow> string \<Rightarrow> bool" where
  "has_key d k = (map_of d k \<noteq> None)"

text \<open>
  How one organic entry with items \<open>kvs\<close> is to appear in the prompt: the three fields,
  each the entry's value or the empty string when the entry lacks the key.
\<close>

definition field :: "pydict \<Rightarrow> string \<Rightarrow> json" where
  "field kvs k = (case map_of kvs k of None \<Rightarrow> JStr [] | Some v \<Rightarrow> v)"

definition result_block :: "(json \<Rightarrow> string) \<Rightarrow> pydict \<Rightarrow> string" where
  "result_block other kvs =
     ''Title: '' @ py_format other (field kvs ''title'') @
     ''\<newline>Snippet: '' @ py_format other (field kvs ''snippet'') @
     ''\<newline>Link: '' @ py_format other (field kvs ''link'')"

text \<open>The calls to the model that a run made, in order: the client's configuration and the prompt.\<close>

fun llm_calls :: "event list \<Rightarrow> (llm_config \<times> string) list" where
  "llm_calls [] = []"
| "llm_calls (Llm_invoke cfg prompt # t) = (cfg, prompt) # llm_calls t"
| "llm_calls (Print s # t) = llm_calls t"
| "llm_calls (Http_post req # t) = llm_calls t"



subsection \<open>Concrete environments, providers and models\<close>

definition env_with_key :: environ where
  "env_with_key name = (if name = ''SERPER_API_KEY'' then Some ''k'' else None)"

definition env_without_key :: environ where
  "env_without_key name = None"

text \<open>A provider that answers every request with six organic entries.\<close>

definition six_organic :: http where
  "six_organic req =
     Inr (Response None (Inr (JObj [(''organic'',
       JArr [JObj [], JObj [], JObj [], JObj [], JObj [], JObj []])])))"

text \<open>A provider that cannot be reached.\<close>

definition transport_error :: http where
  "transport_error req = Inl (Exn ''ConnectionError'' ''connection refused'')"

text \<open>A model that gives \<open>verdict\<close> to the classifier and \<open>answer\<close> to the synthesizer.\<close>

definition scripted_chat :: "string \<Rightarrow> string \<Rightarrow> llm" where
  "scripted_chat verdict answer cfg i prompt = (if i = 0 then Inr verdict else Inr answer)"


text \<open>An environment that holds the credential of the model only.\<close>

definition env_llm_only :: environ where
  "env_llm_only name = (if name = ''ANTHROPIC_API_KEY'' then Some ''a'' else None)"

text \<open>The client of the examples, and a rendering of values that are not strings.\<close>

definition example_config :: llm_config where
  "example_config = create_megabrain_agent env_llm_only"

definition question_mark :: "json \<Rightarrow> string" where
  "question_mark v = ''?''"






section \<open>Properties\<close>

subsection \<open>Computations\<close>

lemma and_then_Inl [simp]: "and_then (Inl e, t) f = (Inl e, t)"
  by (simp add: and_then_def)

lemma and_then_Inr [simp]: "and_then (Inr x, t) f = (fst (f x), t @ snd (f x))"
  by (simp add: and_then_def split: prod.splits)

lemma try_except_Inl [simp]:
  "try_except (Inl e, t) h = (fst (h e), t @ snd (h e))"
  by (simp add: try_except_def split: prod.splits)

lemma try_except_Inr [simp]: "try_except (Inr x, t) h = (Inr x, t)"
  by (simp add: try_except_def)


lemma try_except_snd:
  "snd (try_except m h) = (case fst m of Inl e \<Rightarrow> snd m @ snd (h e) | Inr x \<Rightarrow> snd m)"
  by (cases m; cases "fst m") auto

subsection \<open>The search provider\<close>

lemma search_web_try_trace: "snd (search_web_try post req) = [Http_post req]"
  by (cases "post req") (auto simp: search_web_try_def pure_step_def)

lemma search_web_try_fst:
  "fst (search_web_try post req) =
     (case post req of
        Inl e \<Rightarrow> Inl e
      | Inr response \<Rightarrow>
          (case raise_for_status response of
             Some e \<Rightarrow> Inl e
           | None \<Rightarrow>
               (case json_of response of
                  Inl e \<Rightarrow> Inl e
                | Inr d \<Rightarrow> organic_results d)))"
  by (cases "post req") (simp_all add: search_web_try_def pure_step_def)

lemma search_web_disabled:
  "env ''SERPER_API_KEY'' = None \<or> env ''SERPER_API_KEY'' = Some [] \<Longrightarrow>
   search_web env post q n = (Inr [], [Print search_warning])"
  by (auto simp: search_web_def search_disabled_def emit_def ret_def)

lemma search_web_enabled:
  assumes "env ''SERPER_API_KEY'' = Some k" and "k \<noteq> []"
  shows "search_web env post q n =
     (case fst (search_web_try post (search_request k q n)) of
        Inl e \<Rightarrow> (Inr [], [Http_post (search_request k q n),
                       Print (''Error in web search: '' @ exn_message e)])
      | Inr rs \<Rightarrow> (Inr rs, [Http_post (search_request k q n)]))"
proof -
  obtain r t where rt: "search_web_try post (search_request k q n) = (r, t)"
    by (cases "search_web_try post (search_request k q n)")
  have t: "t = [Http_post (search_request k q n)]"
    using search_web_try_trace[of post "search_request k q n"] rt by simp
  show ?thesis
    using assms rt t by (cases r) (simp_all add: search_web_def emit_def ret_def)
qed

lemma search_web_total: "\<exists>rs. fst (search_web env post q n) = Inr rs"
proof (cases "env ''SERPER_API_KEY''")
  case None
  then show ?thesis by (simp add: search_web_disabled)
next
  case (Some k)
  show ?thesis
  proof (cases "k = []")
    case True
    with Some show ?thesis by (simp add: search_web_disabled)
  next
    case False
    have "search_web env post q n =
     (case fst (search_web_try post (search_request k q n)) of
        Inl e \<Rightarrow> (Inr [], [Http_post (search_request k q n),
                       Print (''Error in web search: '' @ exn_message e)])
      | Inr rs \<Rightarrow> (Inr rs, [Http_post (search_request k q n)]))"
      using Some False by (rule search_web_enabled)
    then show ?thesis
      by (simp split: sum.split)
  qed
qed

lemma py_get_dict:
  "is_dict v \<Longrightarrow>
   py_get v k d = Inr (case map_of (items_of v) k of None \<Rightarrow> d | Some x \<Rightarrow> x)"
  by (cases v) simp_all

lemma py_get_not_dict: "\<not> is_dict v \<Longrightarrow> py_get v k d = Inl (no_attribute v ''get'')"
  by (cases v) simp_all

lemma collect_dicts:
  "list_all is_dict items \<Longrightarrow>
   collect items acc = Inr (acc @ map (\<lambda>v. item_result (items_of v)) items)"
  by (induction items arbitrary: acc) (simp_all add: py_get_dict item_result_def)

lemma collect_not_dicts:
  "\<not> list_all is_dict items \<Longrightarrow> \<exists>e. collect items acc = Inl e"
proof (induction items arbitrary: acc)
  case Nil
  then show ?case by simp
next
  case (Cons a items)
  show ?case
  proof (cases "is_dict a")
    case True
    with Cons.prems have "\<not> list_all is_dict items" by simp
    from Cons.IH[OF this] True show ?thesis by (simp add: py_get_dict)
  next
    case False
    then show ?thesis by (simp add: py_get_not_dict)
  qed
qed

lemma dicts_are_JObj: "list_all is_dict xs \<Longrightarrow> xs = map JObj (map items_of xs)"
proof (induction xs)
  case Nil
  then show ?case by simp
next
  case (Cons a xs)
  then show ?case by (cases a) simp_all
qed

lemma organic_results_nonempty:
  assumes "organic_results d = Inr rs" and "rs \<noteq> []"
  shows "\<exists>kvs objs. d = JObj kvs \<and> map_of kvs ''organic'' = Some (JArr (map JObj objs)) \<and>
           rs = map item_result objs"
proof -
  from assms(1) obtain kvs where d: "d = JObj kvs"
    by (cases d) (simp_all add: organic_results_def)
  define organic where "organic = (case map_of kvs ''organic'' of None \<Rightarrow> JArr [] | Some v \<Rightarrow> v)"
  from assms(1) d obtain items where it: "py_iter organic = Inr items" and c: "collect items [] = Inr rs"
    by (auto simp: organic_results_def organic_def split: sum.splits)
  have dicts: "list_all is_dict items"
    using collect_not_dicts[of items "[]"] c by auto
  then have rs: "rs = map (\<lambda>v. item_result (items_of v)) items"
    using collect_dicts[of items "[]"] c by simp
  with assms(2) have ne: "items \<noteq> []" by auto
  then obtain x xs where items: "items = x # xs" by (cases items) auto
  with dicts have x: "is_dict x" by simp
  have org: "organic = JArr items"
    using it items x by (cases organic) auto
  have m: "map_of kvs ''organic'' = Some (JArr items)"
    using org ne by (auto simp: organic_def split: option.splits)
  have j: "items = map JObj (map items_of items)"
    using dicts by (rule dicts_are_JObj)
  have r: "rs = map item_result (map items_of items)"
    using rs by simp
  show ?thesis
  proof (intro exI conjI)
    show "d = JObj kvs" by (rule d)
    show "map_of kvs ''organic'' = Some (JArr (map JObj (map items_of items)))"
      using m j by simp
    show "rs = map item_result (map items_of items)" by (rule r)
  qed
qed

lemma search_web_nonempty:
  assumes "fst (search_web env post q n) = Inr rs" and "rs \<noteq> []"
  shows "\<exists>k kvs objs. env ''SERPER_API_KEY'' = Some k \<and> k \<noteq> [] \<and>
           post (search_request k q n) = Inr (Response None (Inr (JObj kvs))) \<and>
           map_of kvs ''organic'' = Some (JArr (map JObj objs)) \<and>
           rs = map item_result objs"
proof -
  have "\<not> (env ''SERPER_API_KEY'' = None \<or> env ''SERPER_API_KEY'' = Some [])"
  proof
    assume "env ''SERPER_API_KEY'' = None \<or> env ''SERPER_API_KEY'' = Some []"
    then have "search_web env post q n = (Inr [], [Print search_warning])"
      by (rule search_web_disabled)
    with assms show False by simp
  qed
  then obtain k where k: "env ''SERPER_API_KEY'' = Some k" "k \<noteq> []"
    by (cases "env ''SERPER_API_KEY''") auto
  have "search_web env post q n =
     (case fst (search_web_try post (search_request k q n)) of
        Inl e \<Rightarrow> (Inr [], [Http_post (search_request k q n),
                       Print (''Error in web search: '' @ exn_message e)])
      | Inr rs \<Rightarrow> (Inr rs, [Http_post (search_request k q n)]))"
    using k by (rule search_web_enabled)
  with assms have t: "fst (search_web_try post (search_request k q n)) = Inr rs"
    by (auto split: sum.splits)
  then obtain resp where p: "post (search_request k q n) = Inr resp"
    by (auto simp: search_web_try_fst split: sum.splits)
  obtain st js where resp: "resp = Response st js" by (cases resp)
  from t p resp have st: "st = None"
    by (auto simp: search_web_try_fst split: option.splits)
  from t p resp st obtain d where js: "js = Inr d" and o: "organic_results d = Inr rs"
    by (auto simp: search_web_try_fst split: sum.splits)
  from organic_results_nonempty[OF o assms(2)] obtain kvs objs where
    "d = JObj kvs" "map_of kvs ''organic'' = Some (JArr (map JObj objs))"
    "rs = map item_result objs" by blast
  with k p resp st js show ?thesis by blast
qed

lemma item_result_fields:
  "item_result kvs =
     [(''title'', field kvs ''title''), (''snippet'', field kvs ''snippet''),
      (''link'', field kvs ''link'')]"
  by (simp add: item_result_def field_def)

lemma render_result_item:
  "render_result other (item_result kvs) = Inr (result_block other kvs)"
  by (simp add: render_result_def item_result_fields py_getitem_def result_block_def)

lemma render_all_items:
  "render_all other (map item_result objs) = Inr (map (result_block other) objs)"
  by (induction objs) (simp_all add: render_result_item)

lemma search_context_items:
  "search_context other (map item_result objs) =
     Inr (py_join ''\<newline>\<newline>'' (map (result_block other) objs))"
  by (simp add: search_context_def render_all_items)

lemma item_result_keys:
  "has_key (item_result kvs) ''title'' \<and> has_key (item_result kvs) ''snippet'' \<and>
   has_key (item_result kvs) ''link''"
  by (simp add: has_key_def item_result_def)

lemma six_organic_results:
  "fst (search_web env_with_key six_organic ''gold'' 5) =
     Inr [item_result [], item_result [], item_result [], item_result [], item_result [],
          item_result []]"
  by (simp add: search_web_def env_with_key_def six_organic_def search_web_try_def
      pure_step_def organic_results_def item_result_def)

text \<open>
  Claim C5. When \<^verbatim>\<open>SERPER_API_KEY\<close> is absent (or set to the empty string, which
  \<^verbatim>\<open>not serper_api_key\<close> treats alike), \<open>search_web\<close> returns the empty list for every
  query and every \<open>num_results\<close>, whatever the provider would do; it posts no request, and
  the only thing it does is print the warning line. It returns normally: nothing is raised.
\<close>

theorem search_web_without_credential:
  assumes "env ''SERPER_API_KEY'' = None \<or> env ''SERPER_API_KEY'' = Some []"
  shows "search_web env post query num_results = (Inr [], [Print search_warning]) \<and>
         network_calls (snd (search_web env post query num_results)) = 0 \<and>
         search_warning = ''Warning: SERPER_API_KEY not found. Web search will be disabled.''"
  using search_web_disabled[of env post query num_results] assms
  by (simp add: network_calls_def is_http_post_def search_warning_def)

theorem search_web_without_credential_witness:
  "search_web env_without_key transport_error ''gold'' 5 = (Inr [], [Print search_warning]) \<and>
   network_calls (snd (search_web env_without_key transport_error ''gold'' 5)) = 0"
  using search_web_without_credential[of env_without_key transport_error "''gold''" 5]
  by (simp add: env_without_key_def network_calls_def is_http_post_def)



text \<open>
  Claim C8, as stated, fails: \<open>search_web\<close> keeps every entry of the provider's organic
  list. Asked for 5 results, with a provider that sends six entries, it returns six.
\<close>

theorem search_web_length_counterexample:
  "\<not> (case fst (search_web env_with_key six_organic ''gold'' 5) of
        Inl e \<Rightarrow> True
      | Inr rs \<Rightarrow> int (length rs) \<le> 5)"
  by (simp add: search_web_def env_with_key_def six_organic_def search_web_try_def
      pure_step_def organic_results_def)

text \<open>
  Claim C8, amended. \<open>search_web\<close> sends \<open>num_results\<close> to the provider as the field
  \<^verbatim>\<open>num\<close> of the request and does not cut the answer: a result list that is not empty
  has exactly one record per entry of the provider's organic list, in the same order. Its
  length is the length of that list, so it is at most \<open>num_results\<close> when the provider
  sends at most \<open>num_results\<close> entries.
\<close>

theorem search_web_length:
  assumes "fst (search_web env post query n) = Inr rs"
  shows "rs = [] \<or>
    (\<exists>k kvs objs. env ''SERPER_API_KEY'' = Some k \<and>
       map_of (post_data (search_request k query n)) ''num'' = Some (JInt n) \<and>
       post (search_request k query n) = Inr (Response None (Inr (JObj kvs))) \<and>
       map_of kvs ''organic'' = Some (JArr (map JObj objs)) \<and>
       rs = map item_result objs \<and> length rs = length objs)"
proof (cases "rs = []")
  case True
  then show ?thesis by simp
next
  case False
  from search_web_nonempty[OF assms False] obtain k kvs objs where
    "env ''SERPER_API_KEY'' = Some k"
    "post (search_request k query n) = Inr (Response None (Inr (JObj kvs)))"
    "map_of kvs ''organic'' = Some (JArr (map JObj objs))"
    "rs = map item_result objs" by blast
  moreover have "map_of (post_data (search_request k query n)) ''num'' = Some (JInt n)"
    by (simp add: search_request_def)
  ultimately show ?thesis by auto
qed

theorem search_web_length_witness:
  "\<exists>k kvs objs. env_with_key ''SERPER_API_KEY'' = Some k \<and>
       map_of (post_data (search_request k ''gold'' 5)) ''num'' = Some (JInt 5) \<and>
       six_organic (search_request k ''gold'' 5) = Inr (Response None (Inr (JObj kvs))) \<and>
       map_of kvs ''organic'' = Some (JArr (map JObj objs)) \<and> length objs = 6"
proof -
  let ?rs = "[item_result [], item_result [], item_result [], item_result [], item_result [],
          item_result []]"
  from search_web_length[of env_with_key six_organic "''gold''" 5, OF six_organic_results]
  obtain k kvs objs where
    "env_with_key ''SERPER_API_KEY'' = Some k"
    "map_of (post_data (search_request k ''gold'' 5)) ''num'' = Some (JInt 5)"
    "six_organic (search_request k ''gold'' 5) = Inr (Response None (Inr (JObj kvs)))"
    "map_of kvs ''organic'' = Some (JArr (map JObj objs))"
    "length ?rs = length objs"
    by blast
  moreover from this have "length objs = 6" by simp
  ultimately show ?thesis by blast
qed

text \<open>
  Claim C10. Every record of every list that \<open>search_web\<close> returns has the three keys
  \<^verbatim>\<open>title\<close>, \<^verbatim>\<open>snippet\<close> and \<^verbatim>\<open>link\<close>. So the formatting step of the pipeline,
  which reads the three keys with \<^verbatim>\<open>result[...]\<close>, raises no \<^verbatim>\<open>KeyError\<close> on such a
  list: \<open>search_context\<close> returns a text.
\<close>

theorem search_web_results_have_all_keys:
  assumes "fst (search_web env post query n) = Inr rs"
  shows "list_all (\<lambda>r. has_key r ''title'' \<and> has_key r ''snippet'' \<and> has_key r ''link'') rs \<and>
         (\<exists>ctx. search_context other rs = Inr ctx)"
proof (cases "rs = []")
  case True
  then show ?thesis by (simp add: search_context_def)
next
  case False
  from search_web_nonempty[OF assms False] obtain objs where rs: "rs = map item_result objs"
    by blast
  have "list_all (\<lambda>r. has_key r ''title'' \<and> has_key r ''snippet'' \<and> has_key r ''link'') rs"
    unfolding rs list_all_iff using item_result_keys by auto
  moreover have "\<exists>ctx. search_context other rs = Inr ctx"
    unfolding rs by (simp add: search_context_items)
  ultimately show ?thesis by simp
qed

theorem search_web_results_have_all_keys_witness:
  "list_all (\<lambda>r. has_key r ''title'' \<and> has_key r ''snippet'' \<and> has_key r ''link'')
     [item_result [], item_result [], item_result [], item_result [], item_result [],
      item_result []] \<and>
   (\<exists>ctx. search_context (\<lambda>v. ''?'')
      [item_result [], item_result [], item_result [], item_result [], item_result [],
       item_result []] = Inr ctx)"
  using search_web_results_have_all_keys[of env_with_key six_organic "''gold''" 5 _ "\<lambda>v. ''?''",
      OF six_organic_results]
  by simp

subsection \<open>Trimming and upper-casing the classifier output\<close>













subsection \<open>The pipeline\<close>

lemma llm_calls_append: "llm_calls (a @ b) = llm_calls a @ llm_calls b"
  by (induction a rule: llm_calls.induct) simp_all

lemma network_calls_append: "network_calls (a @ b) = network_calls a + network_calls b"
  by (simp add: network_calls_def)

lemma search_web_trace_cases:
  "snd (search_web env post q n) = [Print search_warning] \<or>
   (\<exists>req. snd (search_web env post q n) = [Http_post req]) \<or>
   (\<exists>req s. snd (search_web env post q n) = [Http_post req, Print s])"
proof (cases "env ''SERPER_API_KEY'' = None \<or> env ''SERPER_API_KEY'' = Some []")
  case True
  then have "search_web env post q n = (Inr [], [Print search_warning])"
    by (rule search_web_disabled)
  then show ?thesis by simp
next
  case False
  then obtain k where k: "env ''SERPER_API_KEY'' = Some k" "k \<noteq> []"
    by (cases "env ''SERPER_API_KEY''") auto
  have "search_web env post q n =
     (case fst (search_web_try post (search_request k q n)) of
        Inl e \<Rightarrow> (Inr [], [Http_post (search_request k q n),
                       Print (''Error in web search: '' @ exn_message e)])
      | Inr rs \<Rightarrow> (Inr rs, [Http_post (search_request k q n)]))"
    using k by (rule search_web_enabled)
  then show ?thesis
    by (cases "fst (search_web_try post (search_request k q n))") auto
qed

lemma search_web_llm_calls: "llm_calls (snd (search_web env post q n)) = []"
  using search_web_trace_cases[of env post q n] by auto

lemma fetch_skip:
  "needs_search \<noteq> ''YES'' \<Longrightarrow> fetch env post needs_search m = (Inr [], [])"
  by (simp add: fetch_def ret_def)

lemma fetch_search:
  assumes "fst (search_web env post m 5) = Inr rs"
  shows "fetch env post ''YES'' m =
     (Inr rs, Print (searching_line m) # snd (search_web env post m 5) @
              [Print (found_line (length rs))])"
  using assms by (cases "search_web env post m 5") (simp add: fetch_def emit_def ret_def)

lemma fetch_total: "\<exists>rs. fst (fetch env post needs_search m) = Inr rs"
proof (cases "needs_search = ''YES''")
  case True
  obtain rs where "fst (search_web env post m 5) = Inr rs"
    using search_web_total[of env post m 5] by blast
  from fetch_search[OF this] True show ?thesis by simp
next
  case False
  then show ?thesis by (simp add: fetch_skip)
qed

lemma fetch_llm_calls: "llm_calls (snd (fetch env post needs_search m)) = []"
proof (cases "needs_search = ''YES''")
  case True
  obtain rs where "fst (search_web env post m 5) = Inr rs"
    using search_web_total[of env post m 5] by blast
  from fetch_search[OF this] True show ?thesis
    by (simp add: llm_calls_append search_web_llm_calls)
next
  case False
  then show ?thesis by (simp add: fetch_skip)
qed



lemma megabrain_try_classifier_fails:
  assumes "chat cfg 0 (question_check_prompt m) = Inl e"
  shows "megabrain_try cfg env post chat other m =
           (Inl e, [Llm_invoke cfg (question_check_prompt m)])"
  using assms by (simp add: megabrain_try_def invoke_def)

lemma megabrain_try_classified:
  assumes "chat cfg 0 (question_check_prompt m) = Inr raw"
    and "fetch env post (py_upper (py_strip raw)) m = (Inr rs, t)"
  shows "megabrain_try cfg env post chat other m =
     (case fst (respond chat cfg other m rs) of
        Inl e \<Rightarrow> Inl e
      | Inr result \<Rightarrow> Inr (py_strip result),
      Llm_invoke cfg (question_check_prompt m) # t @ snd (respond chat cfg other m rs))"
  using assms
  by (cases "respond chat cfg other m rs"; cases "fst (respond chat cfg other m rs)")
     (simp_all add: megabrain_try_def invoke_def ret_def)


lemma megabrain_improvement_snd:
  "snd (megabrain_improvement cfg env post chat other m) =
     snd (megabrain_try cfg env post chat other m) @
     (case fst (megabrain_try cfg env post chat other m) of
        Inl e \<Rightarrow> [Print (''Error in megabrain improvement: '' @ exn_message e)]
      | Inr answer \<Rightarrow> [])"
  by (simp add: megabrain_improvement_def try_except_snd emit_def ret_def split: sum.split)

lemma respond_llm_calls:
  "list_all (\<lambda>cp. fst cp = cfg) (llm_calls (snd (respond chat cfg other m rs)))"
  by (cases "search_context other rs") (simp_all add: respond_def invoke_def pure_step_def)

lemma megabrain_improvement_llm_calls:
  "list_all (\<lambda>cp. fst cp = cfg)
     (llm_calls (snd (megabrain_improvement cfg env post chat other m)))"
proof (cases "chat cfg 0 (question_check_prompt m)")
  case (Inl e)
  from Inl have "megabrain_try cfg env post chat other m =
           (Inl e, [Llm_invoke cfg (question_check_prompt m)])"
    by (rule megabrain_try_classifier_fails)
  then show ?thesis
    by (simp add: megabrain_improvement_snd)
next
  case (Inr raw)
  obtain rs where "fst (fetch env post (py_upper (py_strip raw)) m) = Inr rs"
    using fetch_total by blast
  then obtain t where f: "fetch env post (py_upper (py_strip raw)) m = (Inr rs, t)"
    by (cases "fetch env post (py_upper (py_strip raw)) m") simp
  have t: "llm_calls t = []"
    using fetch_llm_calls[of env post "py_upper (py_strip raw)" m] f by simp
  have "megabrain_try cfg env post chat other m =
     (case fst (respond chat cfg other m rs) of
        Inl e \<Rightarrow> Inl e
      | Inr result \<Rightarrow> Inr (py_strip result),
      Llm_invoke cfg (question_check_prompt m) # t @ snd (respond chat cfg other m rs))"
    using Inr f by (rule megabrain_try_classified)
  then show ?thesis
    using respond_llm_calls[of cfg chat other m rs]
    by (simp add: megabrain_improvement_snd llm_calls_append t split: sum.split)
qed





lemma search_web_network_calls:
  "network_calls (snd (search_web env post query n)) =
     (case env ''SERPER_API_KEY'' of None \<Rightarrow> 0 | Some k \<Rightarrow> if k = [] then 0 else 1)"
proof (cases "env ''SERPER_API_KEY'' = None \<or> env ''SERPER_API_KEY'' = Some []")
  case True
  then have "search_web env post query n = (Inr [], [Print search_warning])"
    by (rule search_web_disabled)
  with True show ?thesis
    by (auto simp: network_calls_def is_http_post_def)
next
  case False
  then obtain k where k: "env ''SERPER_API_KEY'' = Some k" "k \<noteq> []"
    by (cases "env ''SERPER_API_KEY''") auto
  have "search_web env post query n =
     (case fst (search_web_try post (search_request k query n)) of
        Inl e \<Rightarrow> (Inr [], [Http_post (search_request k query n),
                       Print (''Error in web search: '' @ exn_message e)])
      | Inr rs \<Rightarrow> (Inr rs, [Http_post (search_request k query n)]))"
    using k by (rule search_web_enabled)
  with k show ?thesis
    by (cases "fst (search_web_try post (search_request k query n))")
       (simp_all add: network_calls_def is_http_post_def)
qed












text \<open>
  Claim C9, as stated, fails for the search credential: \<open>search_web\<close> reads
  \<^verbatim>\<open>SERPER_API_KEY\<close> at every call. Two calls with the same provider, query and
  \<open>num_results\<close>, the first while the variable is set and the second after it was removed,
  differ: the first posts a request, the second does not.
\<close>

theorem search_credential_counterexample:
  "network_calls (snd (search_web env_with_key transport_error ''gold'' 5)) \<noteq>
   network_calls (snd (search_web env_without_key transport_error ''gold'' 5))"
  by (simp add: search_web_def env_with_key_def env_without_key_def transport_error_def
      search_web_try_def search_disabled_def emit_def ret_def network_calls_def
      is_http_post_def)

text \<open>
  Claim C9, amended. The search credential is read at every call of \<open>search_web\<close>: a
  call posts a request exactly when \<^verbatim>\<open>SERPER_API_KEY\<close> is set and not empty in the
  environment of that call. The credential of the model is read once, when
  \<open>create_megabrain_agent\<close> builds the client: every call to the model made by the agent
  carries the key of the environment \<open>env0\<close> of that moment, and a run depends on the
  environment of the call only through \<^verbatim>\<open>SERPER_API_KEY\<close>.
\<close>

theorem credentials_are_read:
  "network_calls (snd (search_web env post query n)) =
     (case env ''SERPER_API_KEY'' of None \<Rightarrow> 0 | Some k \<Rightarrow> if k = [] then 0 else 1) \<and>
   list_all (\<lambda>call. api_key (fst call) = env0 ''ANTHROPIC_API_KEY'')
     (llm_calls (snd (megabrain_improvement (create_megabrain_agent env0) env post chat
        other m))) \<and>
   (env ''SERPER_API_KEY'' = env' ''SERPER_API_KEY'' \<longrightarrow>
      megabrain_improvement cfg env post chat other m =
      megabrain_improvement cfg env' post chat other m)"
proof (intro conjI impI)
  show "network_calls (snd (search_web env post query n)) =
     (case env ''SERPER_API_KEY'' of None \<Rightarrow> 0 | Some k \<Rightarrow> if k = [] then 0 else 1)"
    by (rule search_web_network_calls)
next
  have "list_all (\<lambda>cp. fst cp = create_megabrain_agent env0)
     (llm_calls (snd (megabrain_improvement (create_megabrain_agent env0) env post chat
        other m)))"
    by (rule megabrain_improvement_llm_calls)
  then show "list_all (\<lambda>call. api_key (fst call) = env0 ''ANTHROPIC_API_KEY'')
     (llm_calls (snd (megabrain_improvement (create_megabrain_agent env0) env post chat
        other m)))"
    by (simp add: list_all_iff create_megabrain_agent_def)
next
  assume "env ''SERPER_API_KEY'' = env' ''SERPER_API_KEY''"
  then have "search_web env post m 5 = search_web env' post m 5"
    by (simp add: search_web_def)
  then have "fetch env post needs_search m = fetch env' post needs_search m" for needs_search
    by (simp only: fetch_def)
  then have "megabrain_try cfg env post chat other m = megabrain_try cfg env' post chat other m"
    by (simp only: megabrain_try_def)
  then show "megabrain_improvement cfg env post chat other m =
      megabrain_improvement cfg env' post chat other m"
    by (simp only: megabrain_improvement_def)
qed

theorem credentials_are_read_witness:
  "megabrain_improvement example_config env_with_key six_organic
     (scripted_chat ''YES'' ''four'') question_mark ''gold'' =
   megabrain_improvement example_config (env_with_key(''ANTHROPIC_API_KEY'' := Some ''b''))
     six_organic (scripted_chat ''YES'' ''four'') question_mark ''gold''"
proof -
  have "env_with_key ''SERPER_API_KEY'' =
        (env_with_key(''ANTHROPIC_API_KEY'' := Some ''b'')) ''SERPER_API_KEY''"
    by simp
  with credentials_are_read[of env_with_key six_organic "''gold''" 5 env_llm_only
      "scripted_chat ''YES'' ''four''" question_mark "''gold''"
      "env_with_key(''ANTHROPIC_API_KEY'' := Some ''b'')" example_config]
  show ?thesis by blast
qed

end
